theory Spec2Isabelle
  imports Complex_Main
begin

section \<open>JavaScript values\<close>

text \<open>
  The service of \<^verbatim>\<open>index.js\<close> keeps a list of phonebook entries in memory and
  answers HTTP requests on it. JavaScript is untyped, so the values that flow through the
  handlers are modelled as they are at run time.

  A number is the value of an IEEE double: not-a-number, a finite value, or an infinity.
  Finite values are carried as exact rationals; the rounding of a literal to the nearest
  double is not modelled, and \<open>-0\<close> is identified with \<open>0\<close> (the two are equal under
  \<^verbatim>\<open>===\<close> and both falsy, which is all this program asks of them).
\<close>

datatype jsnum = NaN | Finite rat | PosInf | NegInf

text \<open>
  A value parsed from a JSON request body, or \<^verbatim>\<open>undefined\<close>, which is what reading a
  missing property yields. An object is the list of its properties, the first binding of a
  key being the one the object holds.
\<close>

datatype jsval =
    JUndefined
  | JNull
  | JBool bool
  | JNum jsnum
  | JStr string
  | JArr "jsval list"
  | JObj "(string \<times> jsval) list"

text \<open>\<^verbatim>\<open>!v\<close> is false exactly on the truthy values.\<close>

fun truthy :: "jsval \<Rightarrow> bool" where
  "truthy JUndefined = False"
| "truthy JNull = False"
| "truthy (JBool b) = b"
| "truthy (JNum n) = (n \<noteq> NaN \<and> n \<noteq> Finite 0)"
| "truthy (JStr s) = (s \<noteq> [])"
| "truthy (JArr xs) = True"
| "truthy (JObj kvs) = True"

text \<open>
  \<^verbatim>\<open>a === b\<close>. Primitive values are compared by type and value, and \<^verbatim>\<open>NaN\<close> equals
  nothing. Arrays and objects are compared by reference: the comparisons of this program
  always take their two operands from different request bodies (or from the initial
  data), each parsed afresh, so two arrays or objects are never the same reference there.
\<close>

fun strict_eq :: "jsval \<Rightarrow> jsval \<Rightarrow> bool" where
  "strict_eq JUndefined JUndefined = True"
| "strict_eq JNull JNull = True"
| "strict_eq (JBool a) (JBool b) = (a = b)"
| "strict_eq (JNum a) (JNum b) = (a \<noteq> NaN \<and> a = b)"
| "strict_eq (JStr a) (JStr b) = (a = b)"
| "strict_eq _ _ = False"

text \<open>
  \<^verbatim>\<open>body.name\<close> and \<^verbatim>\<open>body.number\<close>: reading a property throws a TypeError on
  \<^verbatim>\<open>undefined\<close> and \<^verbatim>\<open>null\<close> (the result \<open>None\<close>); on an object it yields the
  property or \<^verbatim>\<open>undefined\<close>. The handlers read only the keys \<^verbatim>\<open>name\<close> and
  \<^verbatim>\<open>number\<close>, which no array and no primitive value has.
\<close>

fun get_field :: "jsval \<Rightarrow> string \<Rightarrow> jsval option" where
  "get_field JUndefined k = None"
| "get_field JNull k = None"
| "get_field (JObj kvs) k = (case map_of kvs k of None \<Rightarrow> Some JUndefined | Some v \<Rightarrow> Some v)"
| "get_field v k = Some JUndefined"


section \<open>The phonebook and its store\<close>

record person =
  person_id :: int
  person_name :: jsval
  person_number :: jsval

text \<open>
  The module variable \<^verbatim>\<open>persons\<close> holds a reference to an array. The store keeps every
  array allocated so far, addressed by its position, and the address that the variable
  holds at the moment.
\<close>

record store =
  arrays :: "person list list"
  persons :: nat

text \<open>
  The collection: the array that \<^verbatim>\<open>persons\<close> refers to. The variable always holds the
  address of an allocated array (\<open>store_inv\<close> below, which holds of every store the
  server can be in), so the read is in range.
\<close>

definition deref :: "store \<Rightarrow> person list" where
  "deref st = arrays st ! persons st"

definition initial_persons :: "person list" where
  "initial_persons =
    [\<lparr>person_id = 1, person_name = JStr ''Arto Hellas'', person_number = JStr ''040-123456''\<rparr>,
     \<lparr>person_id = 2, person_name = JStr ''Ada Lovelace'', person_number = JStr ''39-44-5323523''\<rparr>,
     \<lparr>person_id = 3, person_name = JStr ''Dan Abramov'', person_number = JStr ''12-43-234345''\<rparr>,
     \<lparr>person_id = 4, person_name = JStr ''Mary Poppendieck'', person_number = JStr ''39-23-6423122''\<rparr>]"

definition initial_store :: store where
  "initial_store = \<lparr>arrays = [initial_persons], persons = 0\<rparr>"

text \<open>
  \<^verbatim>\<open>a.concat(x)\<close> allocates a new array holding the elements of \<^verbatim>\<open>a\<close> followed by
  \<^verbatim>\<open>x\<close> and returns its address; it writes to no array that exists.
\<close>

definition array_concat :: "person list list \<Rightarrow> nat \<Rightarrow> person \<Rightarrow> person list list \<times> nat" where
  "array_concat h a x = (h @ [h ! a @ [x]], length h)"

text \<open>
  \<^verbatim>\<open>generateId\<close>: the guard on the length and \<^verbatim>\<open>Math.max\<close> over the ids, then
  \<open>+ 1\<close>. Ids are integers and the addition is exact (as it is for doubles below \<open>2^53\<close>);
  the limits of the engine (memory, the number of arguments of a call) are not modelled.
\<close>

definition generateId :: "store \<Rightarrow> int" where
  "generateId st =
    (let maxId = (case map person_id (deref st) of [] \<Rightarrow> 0 | i # is \<Rightarrow> fold max is i)
     in maxId + 1)"


section \<open>Responses and handlers\<close>

datatype body =
    Json_person person
  | Json_persons "person list"
  | Json_error string
  | Html string
  | Empty

datatype response = Response (status: nat) (body: body)

text \<open>
  \<^verbatim>\<open>POST /api/persons\<close>. A TypeError thrown while the body is read is caught by the
  handler's \<^verbatim>\<open>try\<close>/\<^verbatim>\<open>catch\<close> and answered with status 500. The result is the response
  and the store after the request.
\<close>

definition post_persons :: "store \<Rightarrow> jsval \<Rightarrow> response \<times> store" where
  "post_persons st request_body =
    (case get_field request_body ''name'' of
       None \<Rightarrow> (Response 500 (Json_error ''An unexpected error occurred on the server.''), st)
     | Some name \<Rightarrow>
    (case get_field request_body ''number'' of
       None \<Rightarrow> (Response 500 (Json_error ''An unexpected error occurred on the server.''), st)
     | Some number \<Rightarrow>
         if \<not> truthy name \<or> \<not> truthy number
         then (Response 400 (Json_error ''name or number missing''), st)
         else
           let nameExists = list_ex (\<lambda>p. strict_eq (person_name p) name) (deref st)
           in if nameExists
              then (Response 409 (Json_error ''name already exists''), st)
              else
                let p = \<lparr>person_id = generateId st, person_name = name, person_number = number\<rparr>;
                    (h, a) = array_concat (arrays st) (persons st) p
                in (Response 201 (Json_person p), st\<lparr>arrays := h, persons := a\<rparr>)))"


section \<open>Converting a path segment to a number\<close>

text \<open>
  \<^verbatim>\<open>Number(s)\<close> on a string, after the StringNumericLiteral grammar of the language:
  white space is trimmed on both sides, the empty string is \<open>0\<close>, and what is left must
  be, as a whole, a signed decimal literal (digits with an optional fraction and exponent,
  or \<^verbatim>\<open>Infinity\<close>) or an unsigned binary, octal or hexadecimal integer literal; any other
  string is \<^verbatim>\<open>NaN\<close>. Characters are the code units below 256.
\<close>

definition is_ws :: "char \<Rightarrow> bool" where
  "is_ws c = (c \<in> set [CHR 0x09, CHR 0x0A, CHR 0x0B, CHR 0x0C, CHR 0x0D, CHR 0x20, CHR 0xA0])"

definition trim :: "string \<Rightarrow> string" where
  "trim s = rev (dropWhile is_ws (rev (dropWhile is_ws s)))"

definition is_digit :: "char \<Rightarrow> bool" where
  "is_digit c = (c \<in> set ''0123456789'')"

definition digit_val :: "char \<Rightarrow> nat" where
  "digit_val c = of_char c - 48"

definition digits_val :: "string \<Rightarrow> nat" where
  "digits_val s = foldl (\<lambda>a c. 10 * a + digit_val c) 0 s"

definition scale10 :: "rat \<Rightarrow> int \<Rightarrow> rat" where
  "scale10 m e = (if 0 \<le> e then m * 10 ^ nat e else m / 10 ^ nat (- e))"

text \<open>The exponent after \<^verbatim>\<open>e\<close> or \<^verbatim>\<open>E\<close>: digits with an optional sign.\<close>

definition signed_integer :: "string \<Rightarrow> int option" where
  "signed_integer s =
    (let neg = (s \<noteq> [] \<and> hd s = CHR ''-'');
         ds = (if s \<noteq> [] \<and> (hd s = CHR ''+'' \<or> hd s = CHR ''-'') then tl s else s)
     in if ds \<noteq> [] \<and> list_all is_digit ds
        then Some (if neg then - int (digits_val ds) else int (digits_val ds))
        else None)"

definition unsigned_decimal :: "string \<Rightarrow> jsnum" where
  "unsigned_decimal s =
    (if s = ''Infinity'' then PosInf
     else
       let ip = takeWhile is_digit s;
           r1 = dropWhile is_digit s;
           dot = (r1 \<noteq> [] \<and> hd r1 = CHR ''.'');
           fp = (if dot then takeWhile is_digit (tl r1) else []);
           r2 = (if dot then dropWhile is_digit (tl r1) else r1);
           m = of_nat (digits_val (ip @ fp)) / 10 ^ length fp
       in if ip = [] \<and> fp = [] then NaN
          else (case r2 of
                  [] \<Rightarrow> Finite m
                | c # t \<Rightarrow>
                    if c = CHR ''e'' \<or> c = CHR ''E''
                    then (case signed_integer t of None \<Rightarrow> NaN | Some e \<Rightarrow> Finite (scale10 m e))
                    else NaN))"

fun negate :: "jsnum \<Rightarrow> jsnum" where
  "negate NaN = NaN"
| "negate (Finite q) = Finite (- q)"
| "negate PosInf = NegInf"
| "negate NegInf = PosInf"

definition str_decimal :: "string \<Rightarrow> jsnum" where
  "str_decimal s =
    (case s of
       [] \<Rightarrow> NaN
     | c # t \<Rightarrow>
         if c = CHR ''+'' then unsigned_decimal t
         else if c = CHR ''-'' then negate (unsigned_decimal t)
         else unsigned_decimal s)"

definition radix_digit :: "char \<Rightarrow> nat option" where
  "radix_digit c =
    (if is_digit c then Some (of_char c - 48)
     else if c \<in> set ''abcdef'' then Some (of_char c - 87)
     else if c \<in> set ''ABCDEF'' then Some (of_char c - 55)
     else None)"

definition radix_literal :: "nat \<Rightarrow> string \<Rightarrow> jsnum" where
  "radix_literal b s =
    (if s \<noteq> [] \<and> list_all (\<lambda>c. case radix_digit c of None \<Rightarrow> False | Some d \<Rightarrow> d < b) s
     then Finite (of_nat (foldl (\<lambda>a c. b * a + (case radix_digit c of None \<Rightarrow> 0 | Some d \<Rightarrow> d)) 0 s))
     else NaN)"

definition non_decimal :: "string \<Rightarrow> jsnum" where
  "non_decimal s =
    (case s of
       z # x # t \<Rightarrow>
         if z \<noteq> CHR ''0'' then NaN
         else if x = CHR ''x'' \<or> x = CHR ''X'' then radix_literal 16 t
         else if x = CHR ''o'' \<or> x = CHR ''O'' then radix_literal 8 t
         else if x = CHR ''b'' \<or> x = CHR ''B'' then radix_literal 2 t
         else NaN
     | _ \<Rightarrow> NaN)"

definition Number :: "string \<Rightarrow> jsnum" where
  "Number s =
    (let t = trim s
     in if t = [] then Finite 0
        else (case non_decimal t of NaN \<Rightarrow> str_decimal t | n \<Rightarrow> n))"


section \<open>The reading handlers and the server\<close>

text \<open>
  The handlers below are those of the routes; the static files and the CORS headers that
  the middleware adds do not touch the collection and are left out.

  \<^verbatim>\<open>GET /api/persons/:id\<close>: the segment is converted with \<^verbatim>\<open>Number\<close>, the first
  entry whose id is \<^verbatim>\<open>===\<close> to it is sent with the default status 200, and without
  such an entry the response is 404 with no body.
\<close>

definition get_person :: "store \<Rightarrow> string \<Rightarrow> response" where
  "get_person st segment =
    (let i = Number segment
     in case find (\<lambda>p. strict_eq (JNum (Finite (of_int (person_id p)))) (JNum i)) (deref st) of
          Some p \<Rightarrow> Response 200 (Json_person p)
        | None \<Rightarrow> Response 404 Empty)"

definition get_persons :: "store \<Rightarrow> response" where
  "get_persons st = Response 200 (Json_persons (deref st))"

definition get_root :: response where
  "get_root = Response 200 (Html ''<h1>Phonebook Backend is Running!</h1>'')"

text \<open>
  The decimal digits of a natural number: how a template literal prints a length, and how
  an id is written into a path.
\<close>

fun decimal :: "nat \<Rightarrow> string" where
  "decimal n =
    (if n < 10 then [''0123456789'' ! n]
     else decimal (n div 10) @ [''0123456789'' ! (n mod 10)])"

declare decimal.simps [simp del]

text \<open>
  \<^verbatim>\<open>GET /info\<close>: the clock is read at the request; its rendering is an input here.
\<close>

definition get_info :: "store \<Rightarrow> string \<Rightarrow> response" where
  "get_info st currentTime =
    (let numberOfEntries = length (deref st)
     in Response 200 (Html (''<div>'' @ [CHR 0x0A] @
          ''      <p>Phonebook has info for '' @ decimal numberOfEntries @ '' people</p>'' @ [CHR 0x0A] @
          ''      <p>'' @ currentTime @ ''</p>'' @ [CHR 0x0A] @
          ''    </div>'')))"

datatype request =
    Get_root
  | Get_persons
  | Get_info string
  | Get_person string
  | Post_persons jsval

fun handle :: "store \<Rightarrow> request \<Rightarrow> response \<times> store" where
  "handle st Get_root = (get_root, st)"
| "handle st Get_persons = (get_persons st, st)"
| "handle st (Get_info now) = (get_info st now, st)"
| "handle st (Get_person segment) = (get_person st segment, st)"
| "handle st (Post_persons request_body) = post_persons st request_body"

text \<open>
  The server handles one request after the other, each on the store the previous one left.
  The stores the server can be in are \<open>run initial_store reqs\<close>.
\<close>

definition run :: "store \<Rightarrow> request list \<Rightarrow> store" where
  "run st reqs = foldl (\<lambda>s req. snd (handle s req)) st reqs"

text \<open>
  The primitive values: every value but the arrays and the objects. The payload below,
  whose name is an array, is accepted by the presence check.
\<close>

fun is_primitive :: "jsval \<Rightarrow> bool" where
  "is_primitive (JArr xs) = False"
| "is_primitive (JObj kvs) = False"
| "is_primitive v = True"

definition array_named :: jsval where
  "array_named = JObj [(''name'', JArr []), (''number'', JStr ''1'')]"

text \<open>
  The port. The environment maps variable names to strings; \<^verbatim>\<open>process.env.PORT || 3001\<close>
  is the variable when it is set and not empty. The server is started with
  \<^verbatim>\<open>app.listen(port, ...)\<close>, where \<^verbatim>\<open>port\<close> is the constant of the file's head.
\<close>

definition port :: jsval where
  "port = JNum (Finite 3001)"

definition PORT :: "(string \<rightharpoonup> string) \<Rightarrow> jsval" where
  "PORT env =
    (case env ''PORT'' of
       None \<Rightarrow> JNum (Finite 3001)
     | Some v \<Rightarrow> if truthy (JStr v) then JStr v else JNum (Finite 3001))"

definition listen_port :: "(string \<rightharpoonup> string) \<Rightarrow> jsval" where
  "listen_port env = port"


text \<open>
  What every store the server can be in satisfies: the variable holds the address of an
  allocated array, the ids are pairwise distinct and at least 1, the names are truthy,
  and the names that are primitive values are pairwise distinct.
\<close>

definition store_inv :: "store \<Rightarrow> bool" where
  "store_inv st \<longleftrightarrow>
     persons st < length (arrays st)
     \<and> distinct (map person_id (deref st))
     \<and> distinct (filter is_primitive (map person_name (deref st)))
     \<and> (\<forall>q \<in> set (deref st). truthy (person_name q) \<and> 1 \<le> person_id q)"


section \<open>Facts about the store and the id generator\<close>

lemma deref_update:
  "deref (st\<lparr>arrays := arrays st @ [xs], persons := length (arrays st)\<rparr>) = xs"
  by (simp add: deref_def)

lemma fold_max_Max: "fold max is (i::int) = Max (set (i # is))"
  by (rule Max.set_eq_fold [symmetric])

lemma generateId_eq:
  "generateId st = (if deref st = [] then 1 else 1 + Max (person_id ` set (deref st)))"
proof (cases "deref st")
  case Nil
  then show ?thesis by (simp add: generateId_def)
next
  case (Cons q qs)
  have "fold max (map person_id qs) (person_id q) = Max (set (person_id q # map person_id qs))"
    by (rule fold_max_Max)
  with Cons show ?thesis by (simp add: generateId_def)
qed

lemma generateId_greater:
  assumes "q \<in> set (deref st)"
  shows "person_id q < generateId st"
proof -
  from assms have ne: "deref st \<noteq> []" by auto
  have "person_id q \<le> Max (person_id ` set (deref st))"
    using assms by (intro Max_ge) auto
  with ne show ?thesis by (simp add: generateId_eq)
qed

lemma post_persons_created:
  assumes "get_field b ''name'' = Some name" and "truthy name"
    and "get_field b ''number'' = Some number" and "truthy number"
    and "\<forall>p \<in> set (deref st). \<not> strict_eq (person_name p) name"
  shows "post_persons st b =
      (Response 201 (Json_person \<lparr>person_id = generateId st, person_name = name, person_number = number\<rparr>),
       st\<lparr>arrays := arrays st @ [deref st @ [\<lparr>person_id = generateId st, person_name = name, person_number = number\<rparr>]],
          persons := length (arrays st)\<rparr>)"
  using assms
  by (simp add: post_persons_def list_ex_iff array_concat_def deref_def Let_def)

lemma post_persons_cases:
  "post_persons st b = (Response 500 (Json_error ''An unexpected error occurred on the server.''), st)
   \<or> post_persons st b = (Response 400 (Json_error ''name or number missing''), st)
   \<or> post_persons st b = (Response 409 (Json_error ''name already exists''), st)
   \<or> (\<exists>name number. get_field b ''name'' = Some name \<and> truthy name
        \<and> get_field b ''number'' = Some number \<and> truthy number
        \<and> (\<forall>p \<in> set (deref st). \<not> strict_eq (person_name p) name))"
  by (auto simp add: post_persons_def list_ex_iff Let_def split: option.splits)

lemma handle_store:
  "snd (handle st req) = st
   \<or> (\<exists>name number. truthy name
        \<and> (\<forall>q \<in> set (deref st). \<not> strict_eq (person_name q) name)
        \<and> snd (handle st req) =
            st\<lparr>arrays := arrays st @ [deref st @ [\<lparr>person_id = generateId st, person_name = name, person_number = number\<rparr>]],
               persons := length (arrays st)\<rparr>)"
proof (cases req)
  case (Post_persons b)
  from post_persons_cases [of st b] show ?thesis
  proof (elim disjE exE conjE)
    fix name number
    assume a: "get_field b ''name'' = Some name" "truthy name"
      "get_field b ''number'' = Some number" "truthy number"
      "\<forall>p \<in> set (deref st). \<not> strict_eq (person_name p) name"
    then have "post_persons st b =
      (Response 201 (Json_person \<lparr>person_id = generateId st, person_name = name, person_number = number\<rparr>),
       st\<lparr>arrays := arrays st @ [deref st @ [\<lparr>person_id = generateId st, person_name = name, person_number = number\<rparr>]],
          persons := length (arrays st)\<rparr>)"
      by (rule post_persons_created)
    with a Post_persons show ?thesis by auto
  qed (simp_all add: Post_persons)
qed simp_all

lemma strict_eq_same: "is_primitive v \<Longrightarrow> truthy v \<Longrightarrow> strict_eq v v"
  by (cases v) auto

lemma store_inv_initial: "store_inv initial_store"
  by (simp add: store_inv_def initial_store_def initial_persons_def deref_def)

lemma generateId_positive:
  assumes "\<forall>q \<in> set (deref st). 1 \<le> person_id q"
  shows "1 \<le> generateId st"
proof (cases "deref st")
  case Nil
  then show ?thesis by (simp add: generateId_eq)
next
  case (Cons q qs)
  then have "q \<in> set (deref st)" by simp
  with assms generateId_greater [of q st] show ?thesis by force
qed

lemma store_inv_handle:
  assumes "store_inv st"
  shows "store_inv (snd (handle st req))"
proof -
  from handle_store [of st req] show ?thesis
  proof (elim disjE exE conjE)
    assume "snd (handle st req) = st"
    with assms show ?thesis by simp
  next
    fix name number
    let ?p = "\<lparr>person_id = generateId st, person_name = name, person_number = number\<rparr>"
    assume t: "truthy name"
      and n: "\<forall>q \<in> set (deref st). \<not> strict_eq (person_name q) name"
      and s: "snd (handle st req) = st\<lparr>arrays := arrays st @ [deref st @ [?p]], persons := length (arrays st)\<rparr>"
    have d: "deref (snd (handle st req)) = deref st @ [?p]"
      unfolding s by (rule deref_update)
    have i: "generateId st \<notin> set (map person_id (deref st))"
      using generateId_greater [of _ st] by force
    have m: "is_primitive name \<Longrightarrow> name \<notin> set (map person_name (deref st))"
    proof
      assume "is_primitive name" and "name \<in> set (map person_name (deref st))"
      then obtain q where "q \<in> set (deref st)" and "person_name q = name" by auto
      with n have "\<not> strict_eq name name" by auto
      with \<open>is_primitive name\<close> t show False by (simp add: strict_eq_same)
    qed
    have g: "1 \<le> generateId st"
      using assms by (intro generateId_positive) (simp add: store_inv_def)
    show ?thesis
      using assms t i m g unfolding store_inv_def d by (auto simp add: s)
  qed
qed

lemma run_snoc: "run st (reqs @ [req]) = snd (handle (run st reqs) req)"
  by (simp add: run_def)

lemma store_inv_run: "store_inv st \<Longrightarrow> store_inv (run st reqs)"
  by (induction reqs rule: rev_induct) (simp_all add: run_def store_inv_handle)

lemma handle_extends: "\<exists>ext. deref (snd (handle st req)) = deref st @ ext"
  using handle_store [of st req] by (auto simp add: deref_update)

lemma run_extends: "\<exists>ext. deref (run st reqs) = deref st @ ext"
proof (induction reqs rule: rev_induct)
  case Nil
  then show ?case by (simp add: run_def)
next
  case (snoc req reqs)
  then obtain e1 where "deref (run st reqs) = deref st @ e1" by blast
  moreover obtain e2 where "deref (snd (handle (run st reqs) req)) = deref (run st reqs) @ e2"
    using handle_extends by blast
  ultimately show ?case by (simp add: run_snoc)
qed


lemma post_persons_201:
  assumes "post_persons st b = (Response 201 (Json_person p), st')"
  shows "get_field b ''name'' = Some (person_name p)"
    and "get_field b ''number'' = Some (person_number p)"
    and "person_id p = generateId st"
    and "st' = st\<lparr>arrays := arrays st @ [deref st @ [p]], persons := length (arrays st)\<rparr>"
    and "\<forall>q \<in> set (deref st). person_id q < person_id p"
  using assms
  by (auto simp add: post_persons_def Let_def array_concat_def deref_def generateId_greater
      split: option.splits if_splits)

lemma find_first_match:
  assumes "P p" and "\<forall>q \<in> set xs. \<not> P q"
  shows "find P (xs @ p # ys) = Some p"
  using assms by (induction xs) auto

lemma find_in_prefix:
  assumes "find P xs = Some p"
  shows "find P (xs @ ys) = Some p"
  using assms by (induction xs) (auto split: if_splits)


section \<open>Facts about the conversion of segments\<close>

lemma is_digit_nth: "d < 10 \<Longrightarrow> is_digit (''0123456789'' ! d)"
  unfolding is_digit_def by (rule nth_mem) simp

lemma digit_val_nth: "d < 10 \<Longrightarrow> digit_val (''0123456789'' ! d) = d"
proof -
  assume "d < 10"
  then have "d \<in> {0, 1, 2, 3, 4, 5, 6, 7, 8, 9}" by auto
  then show ?thesis by (auto simp add: digit_val_def)
qed

lemma is_digit_not_ws: "is_digit c \<Longrightarrow> \<not> is_ws c"
  by (auto simp add: is_digit_def is_ws_def)

lemma digits_val_snoc: "digits_val (s @ [c]) = 10 * digits_val s + digit_val c"
  by (simp add: digits_val_def)

lemma decimal_digits: "list_all is_digit (decimal n)"
proof (induction n rule: decimal.induct)
  case (1 n)
  show ?case
  proof (cases "n < 10")
    case True
    then show ?thesis by (subst decimal.simps) (simp add: is_digit_nth)
  next
    case False
    with 1 have "list_all is_digit (decimal (n div 10))" by simp
    moreover have "is_digit (''0123456789'' ! (n mod 10))" by (rule is_digit_nth) simp
    ultimately show ?thesis using False by (subst decimal.simps) simp
  qed
qed

lemma decimal_not_Nil: "decimal n \<noteq> []"
  by (subst decimal.simps) simp

lemma digits_val_decimal: "digits_val (decimal n) = n"
proof (induction n rule: decimal.induct)
  case (1 n)
  show ?case
  proof (cases "n < 10")
    case True
    then show ?thesis by (subst decimal.simps) (simp add: digits_val_def digit_val_nth)
  next
    case False
    with 1 have "digits_val (decimal (n div 10)) = n div 10" by simp
    moreover have "digit_val (''0123456789'' ! (n mod 10)) = n mod 10" by (rule digit_val_nth) simp
    ultimately show ?thesis using False by (subst decimal.simps) (simp add: digits_val_snoc)
  qed
qed

lemma trim_digits:
  assumes "s \<noteq> []" and "list_all is_digit s"
  shows "trim s = s"
proof -
  from assms have "\<not> is_ws (hd s)"
    by (cases s) (auto simp add: is_digit_not_ws)
  with assms have a: "dropWhile is_ws s = s" by (cases s) auto
  from assms have "\<not> is_ws (last s)"
    by (auto simp add: list_all_iff is_digit_not_ws)
  with assms have "\<not> is_ws (hd (rev s))" by (simp add: hd_rev)
  with assms have "dropWhile is_ws (rev s) = rev s" by (cases "rev s") auto
  with a show ?thesis by (simp add: trim_def)
qed

lemma non_decimal_digits:
  assumes "list_all is_digit s"
  shows "non_decimal s = NaN"
proof (cases s)
  case Nil
  then show ?thesis by (simp add: non_decimal_def)
next
  case (Cons z t)
  show ?thesis
  proof (cases t)
    case Nil
    with Cons show ?thesis by (simp add: non_decimal_def)
  next
    case (Cons x u)
    with assms \<open>s = z # t\<close> have "is_digit x" by simp
    then have "x \<noteq> CHR ''x''" "x \<noteq> CHR ''X''" "x \<noteq> CHR ''o''" "x \<noteq> CHR ''O''"
      "x \<noteq> CHR ''b''" "x \<noteq> CHR ''B''"
      by (auto simp add: is_digit_def)
    with Cons \<open>s = z # t\<close> show ?thesis by (simp add: non_decimal_def)
  qed
qed

lemma unsigned_decimal_digits:
  assumes "s \<noteq> []" and "list_all is_digit s"
  shows "unsigned_decimal s = Finite (of_nat (digits_val s))"
proof -
  from assms have "is_digit (hd s)" by (cases s) auto
  then have "hd s \<noteq> CHR ''I''" by (auto simp add: is_digit_def)
  then have ni: "s \<noteq> ''Infinity''" by auto
  from assms have tw: "takeWhile is_digit s = s" and dw: "dropWhile is_digit s = []"
    by (simp_all add: list_all_iff)
  show ?thesis using assms ni by (simp add: unsigned_decimal_def tw dw)
qed

lemma str_decimal_digits:
  assumes "s \<noteq> []" and "list_all is_digit s"
  shows "str_decimal s = Finite (of_nat (digits_val s))"
proof -
  from assms obtain c t where s: "s = c # t" by (cases s) auto
  with assms have "is_digit c" by simp
  then have "c \<noteq> CHR ''+''" "c \<noteq> CHR ''-''" by (auto simp add: is_digit_def)
  then have "str_decimal s = unsigned_decimal s" by (simp add: str_decimal_def s)
  with assms show ?thesis by (simp add: unsigned_decimal_digits)
qed

lemma Number_decimal: "Number (decimal n) = Finite (of_nat n)"
proof -
  have d: "decimal n \<noteq> []" "list_all is_digit (decimal n)"
    by (rule decimal_not_Nil, rule decimal_digits)
  then have "Number (decimal n) = str_decimal (decimal n)"
    by (simp add: Number_def trim_digits non_decimal_digits)
  with d show ?thesis by (simp add: str_decimal_digits digits_val_decimal)
qed











section \<open>Creating an entry\<close>





text \<open>
  C4. A payload with truthy name and number whose name is \<^verbatim>\<open>===\<close> to the name of a
  stored entry (on strings: the same string, character by character) is answered with
  status 409 and the error \<^verbatim>\<open>name already exists\<close>, and the store is the one before
  the request.
\<close>

theorem create_duplicate_name:
  assumes "get_field b ''name'' = Some name" and "truthy name"
    and "get_field b ''number'' = Some number" and "truthy number"
    and "q \<in> set (deref st)" and "strict_eq (person_name q) name"
  shows "post_persons st b = (Response 409 (Json_error ''name already exists''), st)"
  using assms by (auto simp add: post_persons_def list_ex_iff)

theorem create_duplicate_name_witness:
  "post_persons initial_store (JObj [(''name'', JStr ''Mary Poppendieck''), (''number'', JStr ''1'')])
     = (Response 409 (Json_error ''name already exists''), initial_store)"
  using create_duplicate_name [of "JObj [(''name'', JStr ''Mary Poppendieck''), (''number'', JStr ''1'')]"
      "JStr ''Mary Poppendieck''" "JStr ''1''"
      "\<lparr>person_id = 4, person_name = JStr ''Mary Poppendieck'', person_number = JStr ''39-23-6423122''\<rparr>"
      initial_store]
  by (simp add: initial_store_def initial_persons_def deref_def)


section \<open>The collection invariant\<close>

text \<open>
  C2, as the claim states it, fails: the names of the entries are not always pairwise
  distinct. An array is truthy and \<^verbatim>\<open>===\<close> to no other array, so the same payload
  with an array as its name is stored twice.
\<close>

theorem names_not_unique_counterexample:
  "\<not> distinct (map person_name
        (deref (run initial_store [Post_persons array_named, Post_persons array_named])))"
  by (simp add: run_def post_persons_def array_named_def initial_store_def initial_persons_def
      deref_def generateId_def array_concat_def Let_def)

text \<open>
  C2, amended. In every store the server can be in, after any sequence of requests, the
  ids of the entries are pairwise distinct, and so are the names that are primitive
  values (strings, numbers, booleans).
\<close>

theorem ids_and_primitive_names_unique:
  "distinct (map person_id (deref (run initial_store reqs)))
   \<and> distinct (filter is_primitive (map person_name (deref (run initial_store reqs))))"
proof -
  have "store_inv (run initial_store reqs)"
    using store_inv_initial by (rule store_inv_run)
  then show ?thesis by (simp add: store_inv_def)
qed


section \<open>Looking an entry up\<close>

lemma id_matches:
  "strict_eq (JNum (Finite (of_int i))) (JNum n) \<longleftrightarrow> Finite (of_int i) = n"
  by auto

lemma get_person_eq:
  "get_person st seg =
    (case find (\<lambda>p. Finite (of_int (person_id p)) = Number seg) (deref st) of
       Some p \<Rightarrow> Response 200 (Json_person p)
     | None \<Rightarrow> Response 404 Empty)"
  by (simp add: get_person_def id_matches)



lemma get_person_initial:
  assumes "Number seg = Finite 4"
  shows "get_person (run initial_store reqs) seg = Response 200 (Json_person
       \<lparr>person_id = 4, person_name = JStr ''Mary Poppendieck'', person_number = JStr ''39-23-6423122''\<rparr>)"
proof -
  obtain ext where "deref (run initial_store reqs) = deref initial_store @ ext"
    using run_extends by blast
  then have d: "deref (run initial_store reqs) = initial_persons @ ext"
    by (simp add: deref_def initial_store_def)
  have "find (\<lambda>p. Finite (rat_of_int (person_id p)) = Finite 4) initial_persons = Some
       \<lparr>person_id = 4, person_name = JStr ''Mary Poppendieck'', person_number = JStr ''39-23-6423122''\<rparr>"
    by (simp add: initial_persons_def)
  then show ?thesis
    unfolding get_person_eq assms d by (simp add: find_in_prefix)
qed

text \<open>
  C9. The segment is converted with \<^verbatim>\<open>Number\<close>, so segments that are not the decimal
  digits of an integer reach an entry too: in every store the server can be in, the
  segments \<^verbatim>\<open>4.0\<close>, \<^verbatim>\<open> 4\<close> (with a leading blank) and \<^verbatim>\<open>4e0\<close> are answered
  with status 200 and the entry whose id is 4.
\<close>

theorem get_person_number_coercion:
  "get_person (run initial_store reqs) ''4.0'' = Response 200 (Json_person
       \<lparr>person_id = 4, person_name = JStr ''Mary Poppendieck'', person_number = JStr ''39-23-6423122''\<rparr>)
   \<and> get_person (run initial_store reqs) '' 4'' = Response 200 (Json_person
       \<lparr>person_id = 4, person_name = JStr ''Mary Poppendieck'', person_number = JStr ''39-23-6423122''\<rparr>)
   \<and> get_person (run initial_store reqs) ''4e0'' = Response 200 (Json_person
       \<lparr>person_id = 4, person_name = JStr ''Mary Poppendieck'', person_number = JStr ''39-23-6423122''\<rparr>)"
proof -
  have "Number ''4.0'' = Finite 4" and "Number '' 4'' = Finite 4" and "Number ''4e0'' = Finite 4"
    by code_simp+
  then show ?thesis by (simp add: get_person_initial)
qed

text \<open>
  C6. Round trip: the entry that a successful create returns is what a later lookup with
  the decimal digits of its id returns, with status 200, whatever requests the server
  has handled in between.
\<close>

theorem create_then_get:
  assumes "post_persons (run initial_store reqs) b = (Response 201 (Json_person p), st')"
  shows "get_person (run st' later) (decimal (nat (person_id p))) = Response 200 (Json_person p)"
proof -
  let ?st = "run initial_store reqs"
  have inv: "store_inv ?st"
    using store_inv_initial by (rule store_inv_run)
  from assms have st': "st' = ?st\<lparr>arrays := arrays ?st @ [deref ?st @ [p]], persons := length (arrays ?st)\<rparr>"
    and lt: "\<forall>q \<in> set (deref ?st). person_id q < person_id p"
    and gen: "person_id p = generateId ?st"
    by (rule post_persons_201)+
  have "deref st' = deref ?st @ [p]"
    unfolding st' by (rule deref_update)
  moreover obtain ext where "deref (run st' later) = deref st' @ ext"
    using run_extends by blast
  ultimately have d: "deref (run st' later) = deref ?st @ p # ext" by simp
  have "1 \<le> person_id p"
    unfolding gen using inv by (intro generateId_positive) (simp add: store_inv_def)
  then have "rat_of_nat (nat (person_id p)) = rat_of_int (person_id p)"
    by (metis int_nat_eq of_int_of_nat_eq order.trans zero_le_one)
  then have n: "Number (decimal (nat (person_id p))) = Finite (of_int (person_id p))"
    by (simp add: Number_decimal)
  have "find (\<lambda>q. Finite (rat_of_int (person_id q)) = Finite (rat_of_int (person_id p)))
      (deref ?st @ p # ext) = Some p"
    using lt by (intro find_first_match) auto
  then show ?thesis by (simp add: get_person_eq n d)
qed

theorem create_then_get_witness:
  "get_person
     (run (snd (post_persons (run initial_store [])
                 (JObj [(''name'', JStr ''New Person''), (''number'', JStr ''000'')])))
          [Post_persons (JObj [(''name'', JStr ''Another''), (''number'', JStr ''1'')])])
     ''5''
   = Response 200 (Json_person \<lparr>person_id = 5, person_name = JStr ''New Person'', person_number = JStr ''000''\<rparr>)"
proof -
  let ?b = "JObj [(''name'', JStr ''New Person''), (''number'', JStr ''000'')]"
  let ?p = "\<lparr>person_id = 5, person_name = JStr ''New Person'', person_number = JStr ''000''\<rparr>"
  have "post_persons (run initial_store []) ?b
      = (Response 201 (Json_person ?p), snd (post_persons (run initial_store []) ?b))"
    by (simp add: run_def post_persons_def initial_store_def initial_persons_def deref_def
        generateId_def array_concat_def Let_def)
  from create_then_get [OF this] have "get_person
     (run (snd (post_persons (run initial_store []) ?b))
          [Post_persons (JObj [(''name'', JStr ''Another''), (''number'', JStr ''1'')])])
     (decimal (nat (person_id ?p))) = Response 200 (Json_person ?p)" .
  moreover have "decimal (nat (person_id ?p)) = ''5''" by code_simp
  ultimately show ?thesis by simp
qed


section \<open>What a create reads and writes\<close>

text \<open>
  C8. A successful create makes the variable \<^verbatim>\<open>persons\<close> refer to a new array, which
  holds the old collection followed by the new entry; the array the variable referred to
  before, like every array allocated before, holds what it held.
\<close>

theorem create_replaces_reference:
  assumes "st = run initial_store reqs"
    and "post_persons st b = (Response 201 (Json_person p), st')"
  shows "persons st' \<noteq> persons st
     \<and> deref st' = deref st @ [p]
     \<and> arrays st' ! persons st = deref st
     \<and> (\<forall>a < length (arrays st). arrays st' ! a = arrays st ! a)"
proof -
  have "store_inv st"
    unfolding assms(1) using store_inv_initial by (rule store_inv_run)
  then have wf: "persons st < length (arrays st)"
    by (simp add: store_inv_def)
  from assms(2) have st': "st' = st\<lparr>arrays := arrays st @ [deref st @ [p]], persons := length (arrays st)\<rparr>"
    by (rule post_persons_201)
  have "persons st' \<noteq> persons st"
    using wf by (simp add: st')
  moreover have "deref st' = deref st @ [p]"
    unfolding st' by (rule deref_update)
  moreover have "\<forall>a < length (arrays st). arrays st' ! a = arrays st ! a"
    by (simp add: st' nth_append)
  moreover from this wf have "arrays st' ! persons st = deref st"
    by (simp add: deref_def)
  ultimately show ?thesis by blast
qed

theorem create_replaces_reference_witness:
  "persons (snd (post_persons initial_store (JObj [(''name'', JStr ''New Person''), (''number'', JStr ''000'')])))
      \<noteq> persons initial_store
   \<and> arrays (snd (post_persons initial_store (JObj [(''name'', JStr ''New Person''), (''number'', JStr ''000'')])))
        ! persons initial_store = initial_persons"
proof -
  let ?b = "JObj [(''name'', JStr ''New Person''), (''number'', JStr ''000'')]"
  let ?p = "\<lparr>person_id = 5, person_name = JStr ''New Person'', person_number = JStr ''000''\<rparr>"
  have r: "initial_store = run initial_store []"
    by (simp add: run_def)
  have c: "post_persons initial_store ?b = (Response 201 (Json_person ?p), snd (post_persons initial_store ?b))"
    by (simp add: post_persons_def initial_store_def initial_persons_def deref_def
        generateId_def array_concat_def Let_def)
  have "deref initial_store = initial_persons"
    by (simp add: deref_def initial_store_def)
  with create_replaces_reference [OF r c] show ?thesis by simp
qed

text \<open>
  C10. The handler reads the name and the number of the payload and nothing else: two
  payloads that agree on both are answered alike and leave the same store, so a further
  property, such as an id sent by the client, changes nothing. The entry a successful
  create stores and returns has the id from \<^verbatim>\<open>generateId\<close> and the payload's name and
  number, and these three fields are all that an entry has.
\<close>

theorem create_reads_name_and_number:
  "(get_field b1 ''name'' = get_field b2 ''name'' \<and> get_field b1 ''number'' = get_field b2 ''number''
      \<longrightarrow> post_persons st b1 = post_persons st b2)
   \<and> (k \<noteq> ''name'' \<and> k \<noteq> ''number''
      \<longrightarrow> post_persons st (JObj ((k, v) # kvs)) = post_persons st (JObj kvs))
   \<and> (post_persons st b = (Response 201 (Json_person p), st')
      \<longrightarrow> (\<exists>name number. get_field b ''name'' = Some name \<and> get_field b ''number'' = Some number
            \<and> p = \<lparr>person_id = generateId st, person_name = name, person_number = number\<rparr>
            \<and> deref st' = deref st @ [p]))"
proof (intro conjI impI)
  assume "get_field b1 ''name'' = get_field b2 ''name'' \<and> get_field b1 ''number'' = get_field b2 ''number''"
  then have "get_field b1 ''name'' = get_field b2 ''name''"
    and "get_field b1 ''number'' = get_field b2 ''number''"
    by simp_all
  then show "post_persons st b1 = post_persons st b2"
    unfolding post_persons_def by (rule arg_cong2)
next
  assume "k \<noteq> ''name'' \<and> k \<noteq> ''number''"
  then have "get_field (JObj ((k, v) # kvs)) ''name'' = get_field (JObj kvs) ''name''"
    and "get_field (JObj ((k, v) # kvs)) ''number'' = get_field (JObj kvs) ''number''"
    by auto
  then show "post_persons st (JObj ((k, v) # kvs)) = post_persons st (JObj kvs)"
    unfolding post_persons_def by (rule arg_cong2)
next
  assume a: "post_persons st b = (Response 201 (Json_person p), st')"
  then have "get_field b ''name'' = Some (person_name p)"
    and "get_field b ''number'' = Some (person_number p)"
    and "person_id p = generateId st"
    and st': "st' = st\<lparr>arrays := arrays st @ [deref st @ [p]], persons := length (arrays st)\<rparr>"
    by (rule post_persons_201)+
  moreover have "deref st' = deref st @ [p]"
    unfolding st' by (rule deref_update)
  ultimately show "\<exists>name number. get_field b ''name'' = Some name \<and> get_field b ''number'' = Some number
            \<and> p = \<lparr>person_id = generateId st, person_name = name, person_number = number\<rparr>
            \<and> deref st' = deref st @ [p]"
    by auto
qed

theorem create_reads_name_and_number_witness:
  "post_persons initial_store
      (JObj [(''name'', JStr ''New Person''), (''number'', JStr ''000''), (''id'', JNum (Finite 99))])
   = post_persons initial_store (JObj [(''name'', JStr ''New Person''), (''number'', JStr ''000'')])
   \<and> post_persons initial_store
      (JObj [(''id'', JNum (Finite 99)), (''name'', JStr ''New Person''), (''number'', JStr ''000'')])
   = post_persons initial_store (JObj [(''name'', JStr ''New Person''), (''number'', JStr ''000'')])
   \<and> deref (snd (post_persons initial_store
        (JObj [(''name'', JStr ''New Person''), (''number'', JStr ''000'')])))
     = deref initial_store @
        [\<lparr>person_id = 5, person_name = JStr ''New Person'', person_number = JStr ''000''\<rparr>]"
proof -
  let ?b = "JObj [(''name'', JStr ''New Person''), (''number'', JStr ''000'')]"
  let ?b1 = "JObj [(''name'', JStr ''New Person''), (''number'', JStr ''000''), (''id'', JNum (Finite 99))]"
  let ?p = "\<lparr>person_id = 5, person_name = JStr ''New Person'', person_number = JStr ''000''\<rparr>"
  have "get_field ?b1 ''name'' = get_field ?b ''name'' \<and> get_field ?b1 ''number'' = get_field ?b ''number''"
    by simp
  with create_reads_name_and_number [where ?b1.0 = ?b1 and ?b2.0 = ?b and st = initial_store]
  have e1: "post_persons initial_store ?b1 = post_persons initial_store ?b"
    by blast
  have "''id'' \<noteq> ''name'' \<and> ''id'' \<noteq> ''number''"
    by simp
  with create_reads_name_and_number [where k = "''id''" and v = "JNum (Finite 99)"
      and kvs = "[(''name'', JStr ''New Person''), (''number'', JStr ''000'')]" and st = initial_store]
  have e2: "post_persons initial_store
      (JObj [(''id'', JNum (Finite 99)), (''name'', JStr ''New Person''), (''number'', JStr ''000'')])
      = post_persons initial_store ?b"
    by blast
  have "post_persons initial_store ?b = (Response 201 (Json_person ?p), snd (post_persons initial_store ?b))"
    by (simp add: post_persons_def initial_store_def initial_persons_def deref_def
        generateId_def array_concat_def Let_def)
  with create_reads_name_and_number [where b = ?b and p = ?p and st = initial_store
      and st' = "snd (post_persons initial_store ?b)"]
  have e3: "deref (snd (post_persons initial_store ?b)) = deref initial_store @ [?p]"
    by blast
  from e1 e2 e3 show ?thesis by (intro conjI)
qed


section \<open>The port\<close>

text \<open>
  C7. With \<^verbatim>\<open>PORT=8080\<close> in the environment the constant \<^verbatim>\<open>PORT\<close> is
  \<^verbatim>\<open>8080\<close>, and the server listens on 3001 all the same: \<^verbatim>\<open>app.listen\<close> is given
  \<^verbatim>\<open>port\<close>, not \<^verbatim>\<open>PORT\<close>.
\<close>

theorem listen_ignores_PORT:
  "PORT [''PORT'' \<mapsto> ''8080''] = JStr ''8080''
   \<and> listen_port [''PORT'' \<mapsto> ''8080''] = JNum (Finite 3001)"
  by (simp add: PORT_def listen_port_def port_def)

end
